theory Spec2Isabelle
  imports Main
begin

section \<open>Runtime data of the statechart engine (statechart/runtime.py)\<close>

subsection \<open>States, errors and the per-state runtime record\<close>

text \<open>
  The runtime module only reads two attributes of a state object: \<open>name\<close> (for the log
  lines) and \<open>context\<close> (the parent state, or \<open>None\<close> for the chart root). A state is
  built with its context as a constructor argument, so the parent chain of a state is
  finite and never leads back to the state itself. Python keys the dictionaries of
  \<open>Metadata\<close> by the identity of the state object; \<open>ident\<close> stands for that identity, so
  that two states of equal name and context are still two keys. The attribute
  \<open>context\<close> is the selector \<open>context'\<close>, and the test \<open>if state.context:\<close> is the
  test that it is not \<open>None\<close> (a state object is true).
\<close>

datatype state = State (ident: nat) (name: string) (context': "state option")

text \<open>The exceptions the module can raise: the explicit \<open>RuntimeError\<close> with its
  message, and the \<open>KeyError\<close> and \<open>IndexError\<close> of a failed subscript.\<close>

datatype error = RuntimeError string | KeyError | IndexError

text \<open>Class \<open>StateRuntimeData\<close>; the logger attribute carries no data.\<close>

record StateRuntimeData =
  current_state :: "state option"
  state_set :: "state list"

definition StateRuntimeData_init :: StateRuntimeData where
  "StateRuntimeData_init = \<lparr>current_state = None, state_set = []\<rparr>"

subsection \<open>Class Metadata\<close>

text \<open>
  The attributes \<open>event\<close> and \<open>transition\<close> hold objects of classes that live outside
  this module; their types are parameters. \<open>history_states\<close> is the attribute
  \<open>_history_states\<close>. Every method takes the object and hands it back: a method that
  returns a value gives the pair of the value and the object, a method that can raise
  gives the pair of its outcome (\<open>Inl\<close> the exception) and the object as the exception
  leaves it.
\<close>

record ('e, 't) Metadata =
  active_states :: "state \<rightharpoonup> StateRuntimeData"
  event :: "'e option"
  transition :: "'t option"
  history_states :: "state \<rightharpoonup> state"

definition Metadata_init :: "('e, 't) Metadata" where
  "Metadata_init =
     \<lparr>active_states = Map.empty, event = None, transition = None,
      history_states = Map.empty\<rparr>"

definition activate ::
  "state \<Rightarrow> ('e, 't) Metadata \<Rightarrow> (error + unit) \<times> ('e, 't) Metadata" where
  "activate st self =
     (let self1 =
            (if active_states self st = None
             then self\<lparr>active_states := (active_states self)(st \<mapsto> StateRuntimeData_init)\<rparr>
             else self)
      in case active_states self1 st of
           None \<Rightarrow> (Inl KeyError, self1)
         | Some data \<Rightarrow>
             (let self2 =
                    self1\<lparr>active_states :=
                      (active_states self1)(st \<mapsto> data\<lparr>current_state := None\<rparr>)\<rparr>
              in case context' st of
                   None \<Rightarrow> (Inr (), self2)
                 | Some parent \<Rightarrow>
                     (case active_states self2 parent of
                        None \<Rightarrow> (Inl (RuntimeError ''Parent state not activated''), self2)
                      | Some pdata \<Rightarrow>
                          (Inr (),
                           self2\<lparr>active_states :=
                             (active_states self2)
                               (parent \<mapsto> pdata\<lparr>current_state := Some st\<rparr>)\<rparr>))))"

definition deactivate :: "state \<Rightarrow> ('e, 't) Metadata \<Rightarrow> ('e, 't) Metadata" where
  "deactivate st self =
     (case active_states self st of
        None \<Rightarrow> self
      | Some data \<Rightarrow>
          (let self1 =
                 self\<lparr>active_states :=
                   (active_states self)(st \<mapsto> data\<lparr>current_state := None\<rparr>)\<rparr>
           in self1\<lparr>active_states := (active_states self1)(st := None)\<rparr>))"

definition get_history_state ::
  "state \<Rightarrow> ('e, 't) Metadata \<Rightarrow> (error + state) \<times> ('e, 't) Metadata" where
  "get_history_state history_state self =
     (case history_states self history_state of
        None \<Rightarrow> (Inl KeyError, self)
      | Some actual_state \<Rightarrow> (Inr actual_state, self))"

definition has_history_info :: "state \<Rightarrow> ('e, 't) Metadata \<Rightarrow> bool \<times> ('e, 't) Metadata" where
  "has_history_info history_state self =
     (let status = False;
          status = (if history_states self history_state \<noteq> None then True else status)
      in (status, self))"

definition is_active :: "state \<Rightarrow> ('e, 't) Metadata \<Rightarrow> bool \<times> ('e, 't) Metadata" where
  "is_active st self =
     (let status = False;
          status = (if active_states self st \<noteq> None then True else status)
      in (status, self))"

definition reset :: "('e, 't) Metadata \<Rightarrow> ('e, 't) Metadata" where
  "reset self =
     (let self1 = self\<lparr>active_states := Map.empty\<rparr>
      in self1\<lparr>history_states := Map.empty\<rparr>)"

definition store_history_info ::
  "state \<Rightarrow> state \<Rightarrow> ('e, 't) Metadata \<Rightarrow> ('e, 't) Metadata" where
  "store_history_info history_state actual_state self =
     self\<lparr>history_states := (history_states self)(history_state \<mapsto> actual_state)\<rparr>"

subsection \<open>Class Scope\<close>

text \<open>
  \<open>Scope\<close> is a \<open>ChainMap\<close> of the standard library: its attribute \<open>maps\<close> is a list of
  dictionaries, which the chain shares with whoever else holds them. The dictionaries
  therefore live in a store, addressed by numbers, and a \<open>Scope\<close> is the list of the
  addresses of its layers, first layer first; one dictionary may stand at several
  places of the chain. The constructor of \<open>ChainMap\<close> never leaves \<open>maps\<close> empty, but the
  attribute is assignable, so the empty chain is modelled too.
\<close>

type_synonym addr = nat

type_synonym ('k, 'v) store = "addr \<Rightarrow> ('k \<rightharpoonup> 'v)"

type_synonym Scope = "addr list"

text \<open>
  Reading is not overridden by \<open>Scope\<close>; it is \<open>ChainMap.__getitem__\<close>, which tries
  \<open>mapping[key]\<close> on each element of \<open>maps\<close> in order and raises \<open>KeyError\<close> when every
  one of them fails.
\<close>

fun ChainMap_getitem :: "Scope \<Rightarrow> 'k \<Rightarrow> ('k, 'v) store \<Rightarrow> error + 'v" where
  "ChainMap_getitem [] key h = Inl KeyError"
| "ChainMap_getitem (mapping # rest) key h =
     (case h mapping key of
        Some v \<Rightarrow> Inr v
      | None \<Rightarrow> ChainMap_getitem rest key h)"

text \<open>
  The loop of \<open>Scope.__setitem__\<close>: \<open>Some\<close> of the updated store when a layer defines
  the key (the \<open>return\<close> inside the loop), \<open>None\<close> when the loop runs to its end.
\<close>

fun setitem_loop ::
  "addr list \<Rightarrow> 'k \<Rightarrow> 'v \<Rightarrow> ('k, 'v) store \<Rightarrow> ('k, 'v) store option" where
  "setitem_loop [] key v h = None"
| "setitem_loop (mapping # rest) key v h =
     (if h mapping key \<noteq> None
      then Some (h(mapping := (h mapping)(key \<mapsto> v)))
      else setitem_loop rest key v h)"

definition Scope_setitem ::
  "Scope \<Rightarrow> 'k \<Rightarrow> 'v \<Rightarrow> ('k, 'v) store \<Rightarrow> error + ('k, 'v) store" where
  "Scope_setitem self key v h =
     (case setitem_loop self key v h of
        Some h' \<Rightarrow> Inr h'
      | None \<Rightarrow>
          (case self of
             [] \<Rightarrow> Inl IndexError
           | m0 # _ \<Rightarrow> Inr (h(m0 := (h m0)(key \<mapsto> v)))))"

subsection \<open>A small chart and a small scope\<close>

text \<open>
  The chart of the tests: a root statechart (no context) and a state \<open>default\<close> in it,
  driven from a fresh Metadata object; and a scope of two layers, the inner one
  defining \<open>x\<close> and the outer one \<open>y\<close>.
\<close>

definition root_state :: state where
  "root_state = State 0 ''statechart'' None"

definition child_state :: state where
  "child_state = State 1 ''default'' (Some root_state)"

definition empty_metadata :: "(unit, unit) Metadata" where
  "empty_metadata = Metadata_init"

definition root_metadata :: "(unit, unit) Metadata" where
  "root_metadata = snd (activate root_state empty_metadata)"

definition started_metadata :: "(unit, unit) Metadata" where
  "started_metadata = snd (activate child_state root_metadata)"

definition two_layers :: "(string, int) store" where
  "two_layers = (\<lambda>_. Map.empty)(0 := [''x'' \<mapsto> 1], 1 := [''y'' \<mapsto> 2])"

lemmas example_defs =
  root_state_def child_state_def empty_metadata_def Metadata_init_def
  root_metadata_def started_metadata_def StateRuntimeData_init_def

section \<open>Properties of Metadata\<close>

subsection \<open>Auxiliary facts\<close>

text \<open>A state is never its own context: the context was built before the state.\<close>

lemma context_neq_self: "context' s \<noteq> Some s"
proof
  assume a: "context' s = Some s"
  have "size s = size_option size (context' s) + Suc 0"
    by (cases s) simp
  with a show False by simp
qed

lemma parent_neq: "context' s = Some p \<Longrightarrow> p \<noteq> s"
  using context_neq_self by auto

lemma is_active_iff: "fst (is_active s m) \<longleftrightarrow> active_states m s \<noteq> None"
  by (simp add: is_active_def)

lemma activate_twice: "activate s (snd (activate s m)) = activate s m"
  using parent_neq[of s]
  by (auto simp add: activate_def Let_def split: option.splits if_splits)

lemma activate_succeeds:
  assumes "context' s = None \<or> (\<exists>p. context' s = Some p \<and> fst (is_active p m))"
  shows "fst (activate s m) = Inr ()"
  using assms parent_neq[of s]
  by (auto simp add: activate_def Let_def is_active_iff split: option.splits)

subsection \<open>Activation\<close>

text \<open>
  C1. A state without a context is always accepted by \<open>activate\<close>. A state whose
  context \<open>p\<close> is set is accepted when \<open>p\<close> is active at the call, and otherwise the
  call raises the RuntimeError with the message \<open>Parent state not activated\<close>.
\<close>

theorem activate_parent_check:
  "(context' s = None \<longrightarrow> fst (activate s m) = Inr ()) \<and>
   (\<forall>p. context' s = Some p \<longrightarrow>
      (fst (is_active p m) \<longrightarrow> fst (activate s m) = Inr ()) \<and>
      (\<not> fst (is_active p m) \<longrightarrow>
         fst (activate s m) = Inl (RuntimeError ''Parent state not activated'')))"
  using parent_neq[of s]
  by (auto simp add: activate_def Let_def is_active_iff split: option.splits)

theorem activate_parent_check_witness:
  "fst (activate root_state empty_metadata) = Inr () \<and>
   fst (activate child_state empty_metadata) =
     Inl (RuntimeError ''Parent state not activated'') \<and>
   fst (activate child_state (snd (activate root_state empty_metadata))) = Inr ()"
proof -
  have c0: "context' root_state = None"
    by (simp add: root_state_def)
  have c1: "context' child_state = Some root_state"
    by (simp add: child_state_def)
  have n: "\<not> fst (is_active root_state empty_metadata)"
    by (simp add: is_active_def example_defs)
  have a: "fst (is_active root_state (snd (activate root_state empty_metadata)))"
    by (simp add: is_active_def activate_def example_defs)
  from activate_parent_check[of root_state empty_metadata] c0
  have "fst (activate root_state empty_metadata) = Inr ()" by blast
  moreover from activate_parent_check[of child_state empty_metadata] c1 n
  have "fst (activate child_state empty_metadata) =
     Inl (RuntimeError ''Parent state not activated'')" by blast
  moreover from
    activate_parent_check[of child_state "snd (activate root_state empty_metadata)"] c1 a
  have "fst (activate child_state (snd (activate root_state empty_metadata))) = Inr ()"
    by blast
  ultimately show ?thesis by blast
qed

text \<open>
  C2. After a successful \<open>activate(s)\<close> the state \<open>s\<close> is active, the runtime record
  of \<open>s\<close> has \<open>current_state\<close> equal to \<open>None\<close>, and when \<open>s\<close> has a context, the
  runtime record of that context has \<open>current_state\<close> equal to \<open>s\<close>.
\<close>

theorem activate_success_effects:
  assumes "fst (activate s m) = Inr ()"
  shows "fst (is_active s (snd (activate s m))) \<and>
         map_option current_state (active_states (snd (activate s m)) s) = Some None \<and>
         (\<forall>p. context' s = Some p \<longrightarrow>
            map_option current_state (active_states (snd (activate s m)) p) =
              Some (Some s))"
  using assms parent_neq[of s]
  by (auto simp add: activate_def Let_def is_active_iff split: option.splits if_splits)

theorem activate_success_effects_witness:
  "fst (is_active child_state started_metadata) \<and>
   map_option current_state (active_states started_metadata child_state) = Some None \<and>
   map_option current_state (active_states started_metadata root_state) =
     Some (Some child_state)"
proof -
  have ok: "fst (activate child_state root_metadata) = Inr ()"
    by (simp add: activate_def example_defs)
  have c: "context' child_state = Some root_state"
    by (simp add: child_state_def)
  from activate_success_effects[OF ok] c show ?thesis
    unfolding started_metadata_def by blast
qed

text \<open>
  C7. \<open>activate\<close> is idempotent: when the activation precondition of \<open>s\<close> holds (no
  context, or an active context), the call succeeds, and a second call right after it
  succeeds as well and leaves the same Metadata as the first: the same active states
  with the same runtime records, the same history map.
\<close>

theorem activate_idempotent:
  assumes "context' s = None \<or> (\<exists>p. context' s = Some p \<and> fst (is_active p m))"
  shows "fst (activate s m) = Inr () \<and>
         activate s (snd (activate s m)) = activate s m"
  using activate_succeeds[OF assms] activate_twice[of s m] by simp

theorem activate_idempotent_witness:
  "fst (activate child_state root_metadata) = Inr () \<and>
   activate child_state (snd (activate child_state root_metadata)) =
     activate child_state root_metadata"
proof -
  have "fst (is_active root_state root_metadata)"
    by (simp add: is_active_def activate_def example_defs)
  moreover have "context' child_state = Some root_state"
    by (simp add: child_state_def)
  ultimately have
    "context' child_state = None \<or>
     (\<exists>p. context' child_state = Some p \<and> fst (is_active p root_metadata))"
    by blast
  then show ?thesis by (rule activate_idempotent)
qed

text \<open>
  C9. A failed \<open>activate(s)\<close> is not atomic: when the context of \<open>s\<close> is not active,
  the call raises, and the Metadata it leaves behind already has \<open>s\<close> among its
  active states.
\<close>

theorem activate_failure_not_atomic:
  assumes "context' s = Some p" and "\<not> fst (is_active p m)"
  shows "fst (activate s m) = Inl (RuntimeError ''Parent state not activated'') \<and>
         fst (is_active s (snd (activate s m)))"
  using assms parent_neq[of s p]
  by (auto simp add: activate_def Let_def is_active_iff split: option.splits if_splits)

theorem activate_failure_not_atomic_witness:
  "fst (activate child_state empty_metadata) =
     Inl (RuntimeError ''Parent state not activated'') \<and>
   fst (is_active child_state (snd (activate child_state empty_metadata)))"
proof -
  have c: "context' child_state = Some root_state"
    by (simp add: child_state_def)
  have n: "\<not> fst (is_active root_state empty_metadata)"
    by (simp add: is_active_def example_defs)
  show ?thesis by (rule activate_failure_not_atomic[OF c n])
qed

subsection \<open>Deactivation\<close>

text \<open>
  C3. After \<open>deactivate(s)\<close> the query \<open>is_active(s)\<close> answers false, and
  \<open>deactivate(s)\<close> on a state that is not active returns the Metadata as it was.
\<close>

theorem deactivate_then_inactive:
  "\<not> fst (is_active s (deactivate s m)) \<and>
   (\<not> fst (is_active s m) \<longrightarrow> deactivate s m = m)"
  by (auto simp add: deactivate_def Let_def is_active_iff split: option.splits)

theorem deactivate_then_inactive_witness:
  "\<not> fst (is_active child_state (deactivate child_state started_metadata)) \<and>
   deactivate child_state empty_metadata = empty_metadata"
proof -
  have n: "\<not> fst (is_active child_state empty_metadata)"
    by (simp add: is_active_def example_defs)
  from deactivate_then_inactive[of child_state started_metadata]
    deactivate_then_inactive[of child_state empty_metadata] n
  show ?thesis by blast
qed

text \<open>
  C10. \<open>deactivate(s)\<close> does not touch the runtime record of the context: when the
  context \<open>p\<close> of \<open>s\<close> is active with \<open>current_state\<close> equal to \<open>s\<close>, after
  \<open>deactivate(s)\<close> the record of \<open>p\<close> is the same record, still naming \<open>s\<close>; the entry
  of \<open>s\<close> is gone and every other entry is as before.
\<close>

theorem deactivate_keeps_parent_record:
  assumes "context' s = Some p" and "active_states m p = Some pd"
    and "current_state pd = Some s"
  shows "active_states (deactivate s m) p = Some pd \<and>
         active_states (deactivate s m) s = None \<and>
         (\<forall>q. q \<noteq> s \<longrightarrow> active_states (deactivate s m) q = active_states m q)"
  using assms parent_neq[of s p]
  by (auto simp add: deactivate_def Let_def split: option.splits)

theorem deactivate_keeps_parent_record_witness:
  "active_states (deactivate child_state started_metadata) root_state =
     Some \<lparr>current_state = Some child_state, state_set = []\<rparr> \<and>
   active_states (deactivate child_state started_metadata) child_state = None"
proof -
  have c: "context' child_state = Some root_state"
    by (simp add: child_state_def)
  have p: "active_states started_metadata root_state =
      Some \<lparr>current_state = Some child_state, state_set = []\<rparr>"
    by (simp add: activate_def example_defs)
  have cur: "current_state \<lparr>current_state = Some child_state, state_set = []\<rparr> =
      Some child_state"
    by simp
  from deactivate_keeps_parent_record[OF c p cur] show ?thesis by blast
qed

subsection \<open>Queries, history and reset\<close>

text \<open>
  C8. \<open>is_active\<close> is a pure observer: its answer is exactly membership of the state
  in the active-state registry, and the Metadata object it hands back is the one it
  was given (active states with their runtime records, history map, event and
  transition all untouched).
\<close>

theorem is_active_pure_observer:
  "is_active st self = (st \<in> dom (active_states self), self)"
  by (auto simp: is_active_def)

text \<open>
  C4. \<open>get_history_state(h)\<close> raises exactly when \<open>has_history_info(h)\<close> answers
  false. After \<open>store_history_info(h, x)\<close>, \<open>has_history_info(h)\<close> answers true and
  \<open>get_history_state(h)\<close> returns \<open>x\<close>; a later store for \<open>h\<close> replaces an earlier one.
\<close>

theorem history_read_write:
  "((\<exists>e. fst (get_history_state h m) = Inl e) \<longleftrightarrow> \<not> fst (has_history_info h m)) \<and>
   fst (has_history_info h (store_history_info h x m)) \<and>
   fst (get_history_state h (store_history_info h x m)) = Inr x \<and>
   fst (get_history_state h (store_history_info h y (store_history_info h x m))) = Inr y"
  by (auto simp add: get_history_state_def has_history_info_def store_history_info_def
      split: option.splits)

text \<open>
  C5. \<open>reset\<close> empties both registries: afterwards no state is active and no history
  state has history info.
\<close>

theorem reset_clears_both:
  "\<not> fst (is_active s (reset m)) \<and> \<not> fst (has_history_info h (reset m)) \<and>
   active_states (reset m) = Map.empty \<and> history_states (reset m) = Map.empty"
  by (simp add: reset_def is_active_def has_history_info_def)

section \<open>Properties of Scope\<close>

text \<open>
  When no layer before position \<open>n + 1\<close> defines the key, the first layer does not and
  neither does any of the \<open>n\<close> layers that follow it.
\<close>

lemma first_defining_tail:
  assumes "\<forall>j<Suc n. h ((a # ms) ! j) k = None"
  shows "h a k = None" and "\<forall>j<n. h (ms ! j) k = None"
proof -
  from assms have "h ((a # ms) ! 0) k = None" by blast
  then show "h a k = None" by simp
  show "\<forall>j<n. h (ms ! j) k = None"
  proof (intro allI impI)
    fix j assume "j < n"
    then have "Suc j < Suc n" by simp
    with assms have "h ((a # ms) ! Suc j) k = None" by blast
    then show "h (ms ! j) k = None" by simp
  qed
qed

lemma getitem_first:
  "i < length ms \<Longrightarrow> h (ms ! i) k = Some x \<Longrightarrow> \<forall>j<i. h (ms ! j) k = None \<Longrightarrow>
   ChainMap_getitem ms k h = Inr x"
proof (induction ms arbitrary: i)
  case Nil
  then show ?case by simp
next
  case (Cons a ms)
  show ?case
  proof (cases i)
    case 0
    with Cons.prems(2) show ?thesis by simp
  next
    case (Suc n)
    from Cons.prems(3) Suc have none: "h a k = None" "\<forall>j<n. h (ms ! j) k = None"
      using first_defining_tail[of n h a ms k] by simp_all
    from Cons.prems(1,2) Suc have "n < length ms" "h (ms ! n) k = Some x" by simp_all
    then have "ChainMap_getitem ms k h = Inr x"
      using Cons.IH[of n] none(2) by simp
    with none(1) show ?thesis by simp
  qed
qed

lemma getitem_undefined:
  "\<forall>a\<in>set ms. h a k = None \<Longrightarrow> ChainMap_getitem ms k h = Inl KeyError"
  by (induction ms) auto

lemma setitem_loop_first:
  "i < length ms \<Longrightarrow> h (ms ! i) k \<noteq> None \<Longrightarrow> \<forall>j<i. h (ms ! j) k = None \<Longrightarrow>
   setitem_loop ms k v h = Some (h(ms ! i := (h (ms ! i))(k \<mapsto> v)))"
proof (induction ms arbitrary: i)
  case Nil
  then show ?case by simp
next
  case (Cons a ms)
  show ?case
  proof (cases i)
    case 0
    from Cons.prems(2) 0 have "h a k \<noteq> None" by simp
    then have "setitem_loop (a # ms) k v h = Some (h(a := (h a)(k \<mapsto> v)))"
      by simp
    moreover have "(a # ms) ! i = a" using 0 by simp
    ultimately show ?thesis by (simp only:)
  next
    case (Suc n)
    from Cons.prems(3) Suc have none: "h a k = None" "\<forall>j<n. h (ms ! j) k = None"
      using first_defining_tail[of n h a ms k] by simp_all
    from Cons.prems(1,2) Suc have n: "n < length ms" "h (ms ! n) k \<noteq> None" by simp_all
    have "setitem_loop ms k v h = Some (h(ms ! n := (h (ms ! n))(k \<mapsto> v)))"
      by (rule Cons.IH[OF n none(2)])
    moreover have "(a # ms) ! i = ms ! n" using Suc by simp
    moreover have "setitem_loop (a # ms) k v h = setitem_loop ms k v h"
      using none(1) by simp
    ultimately show ?thesis by (simp only:)
  qed
qed

lemma setitem_loop_undefined:
  "\<forall>a\<in>set ms. h a k = None \<Longrightarrow> setitem_loop ms k v h = None"
  by (induction ms) auto

text \<open>
  C6. Let layer \<open>i\<close> be the first layer of the chain that defines the key \<open>k\<close>, with
  value \<open>x\<close>. Then reading \<open>k\<close> returns \<open>x\<close>, and the assignment \<open>scope[k] = v\<close> changes
  the store at that layer's dictionary only, where it sets \<open>k\<close> to \<open>v\<close>. When no layer
  defines \<open>k\<close>, reading raises \<open>KeyError\<close>, and the assignment defines \<open>k\<close> in the
  dictionary of the first layer, \<open>maps[0]\<close>, and changes nothing else.
\<close>

theorem Scope_first_defining_layer:
  "(i < length ms \<and> h (ms ! i) k = Some x \<and> (\<forall>j<i. h (ms ! j) k = None) \<longrightarrow>
      ChainMap_getitem ms k h = Inr x \<and>
      Scope_setitem ms k v h = Inr (h(ms ! i := (h (ms ! i))(k \<mapsto> v)))) \<and>
   ((\<forall>a\<in>set ms. h a k = None) \<longrightarrow>
      ChainMap_getitem ms k h = Inl KeyError \<and>
      (ms \<noteq> [] \<longrightarrow>
         Scope_setitem ms k v h = Inr (h(ms ! 0 := (h (ms ! 0))(k \<mapsto> v)))))"
proof (intro conjI impI)
  assume a: "i < length ms \<and> h (ms ! i) k = Some x \<and> (\<forall>j<i. h (ms ! j) k = None)"
  then show "ChainMap_getitem ms k h = Inr x"
    using getitem_first[of i ms h k x] by blast
  from a have "setitem_loop ms k v h = Some (h(ms ! i := (h (ms ! i))(k \<mapsto> v)))"
    using setitem_loop_first[of i ms h k v] by auto
  then show "Scope_setitem ms k v h = Inr (h(ms ! i := (h (ms ! i))(k \<mapsto> v)))"
    by (simp add: Scope_setitem_def)
next
  assume "\<forall>a\<in>set ms. h a k = None"
  then show "ChainMap_getitem ms k h = Inl KeyError"
    by (rule getitem_undefined)
next
  assume a: "\<forall>a\<in>set ms. h a k = None" and ne: "ms \<noteq> []"
  from a have "setitem_loop ms k v h = None"
    by (rule setitem_loop_undefined)
  with ne show "Scope_setitem ms k v h = Inr (h(ms ! 0 := (h (ms ! 0))(k \<mapsto> v)))"
    by (cases ms) (simp_all add: Scope_setitem_def)
qed

theorem Scope_first_defining_layer_witness:
  "ChainMap_getitem [0, 1] ''y'' two_layers = Inr 2 \<and>
   Scope_setitem [0, 1] ''y'' 5 two_layers =
     Inr (two_layers(1 := (two_layers 1)(''y'' \<mapsto> 5))) \<and>
   ChainMap_getitem [0, 1] ''z'' two_layers = Inl KeyError \<and>
   Scope_setitem [0, 1] ''z'' 7 two_layers =
     Inr (two_layers(0 := (two_layers 0)(''z'' \<mapsto> 7)))"
proof -
  have d: "(1::nat) < length [0::nat, 1] \<and> two_layers ([0, 1] ! 1) ''y'' = Some 2 \<and>
      (\<forall>j<1. two_layers ([0, 1] ! j) ''y'' = None)"
    by (simp add: two_layers_def)
  have u: "\<forall>a\<in>set [0::nat, 1]. two_layers a ''z'' = None"
    by (simp add: two_layers_def)
  have ne: "[0::nat, 1] \<noteq> []" by simp
  from Scope_first_defining_layer[of 1 "[0, 1]" two_layers "''y''" 2 5] d
  have "ChainMap_getitem [0, 1] ''y'' two_layers = Inr 2 \<and>
      Scope_setitem [0, 1] ''y'' 5 two_layers =
        Inr (two_layers([0, 1] ! 1 := (two_layers ([0, 1] ! 1))(''y'' \<mapsto> 5)))"
    by blast
  moreover from Scope_first_defining_layer[of 0 "[0, 1]" two_layers "''z''" 0 7] u ne
  have "ChainMap_getitem [0, 1] ''z'' two_layers = Inl KeyError \<and>
      Scope_setitem [0, 1] ''z'' 7 two_layers =
        Inr (two_layers([0, 1] ! 0 := (two_layers ([0, 1] ! 0))(''z'' \<mapsto> 7)))"
    by blast
  ultimately show ?thesis by simp
qed

end
